theory Spec2Isabelle
  imports Main
begin

section \<open>Values of the application module\<close>

text \<open>
  The module \<open>src/userbase-server/app.js\<close> keeps application records in a DynamoDB
  table keyed by \<open>(admin-id, app-name)\<close>, tombstones of permanently deleted applications
  in a second table keyed by \<open>app-id\<close>, and reads user records through the \<open>app-id\<close>
  index of a third table. Strings are lists of code units below 256; a request field that
  is missing (\<open>undefined\<close>) is the empty string, which JavaScript treats as false in the
  same way.
\<close>

text \<open>
  The string \<open>new Date().toISOString()\<close>. It always has 24 characters, so it is never
  empty and always true as a JavaScript condition; the model keeps the instant it denotes.
\<close>

datatype iso_date = ISODate nat

record app =
  admin_id :: string
  app_name :: string
  app_id :: string
  creation_date :: iso_date
  deleted :: "iso_date option"

text \<open>The item of the deleted-apps table written by \<open>permanentDeleteApp\<close>.\<close>

record deleted_app =
  deleted_app_id :: string
  deleted_admin_id :: string
  deleted_app_name :: string

text \<open>
  A user record, owned by the user module. This module reads three of its attributes:
  \<open>app-id\<close> (the index key), \<open>deleted\<close> and \<open>seed-not-saved-yet\<close>.
\<close>

record user =
  username :: string
  user_app_id :: string
  user_deleted :: "iso_date option"
  seed_not_saved_yet :: "bool option"

datatype attr_value = S string | D iso_date | B bool

definition app_attrs :: "app \<Rightarrow> string \<Rightarrow> attr_value option" where
  "app_attrs a n =
     (if n = ''admin-id'' then Some (S (admin_id a))
      else if n = ''app-name'' then Some (S (app_name a))
      else if n = ''app-id'' then Some (S (app_id a))
      else if n = ''creation-date'' then Some (D (creation_date a))
      else if n = ''deleted'' then map_option D (deleted a)
      else None)"

definition deleted_app_attrs :: "deleted_app \<Rightarrow> string \<Rightarrow> attr_value option" where
  "deleted_app_attrs t n =
     (if n = ''app-id'' then Some (S (deleted_app_id t))
      else if n = ''admin-id'' then Some (S (deleted_admin_id t))
      else if n = ''app-name'' then Some (S (deleted_app_name t))
      else None)"

definition user_attrs :: "user \<Rightarrow> string \<Rightarrow> attr_value option" where
  "user_attrs u n =
     (if n = ''username'' then Some (S (username u))
      else if n = ''app-id'' then Some (S (user_app_id u))
      else if n = ''deleted'' then map_option D (user_deleted u)
      else if n = ''seed-not-saved-yet'' then map_option B (seed_not_saved_yet u)
      else None)"

text \<open>The attributes of the item found at a key: none when no item is there.\<close>

definition attrs_of :: "('a \<Rightarrow> string \<Rightarrow> attr_value option) \<Rightarrow> 'a option \<Rightarrow> string \<Rightarrow> attr_value option" where
  "attrs_of attrs x = (case x of None \<Rightarrow> (\<lambda>n. None) | Some a \<Rightarrow> attrs a)"

section \<open>Condition, key-condition and filter expressions\<close>

text \<open>
  The expressions of the source, after the substitution of their attribute names and
  values: \<open>attribute_exists(n)\<close>, \<open>attribute_not_exists(n)\<close>, \<open>n = :v\<close> and \<open>c and d\<close>.
\<close>

datatype condition =
    AttributeExists string
  | AttributeNotExists string
  | AttrEq string attr_value
  | And condition condition

fun holds :: "condition \<Rightarrow> (string \<Rightarrow> attr_value option) \<Rightarrow> bool" where
  "holds (AttributeExists n) m = (m n \<noteq> None)"
| "holds (AttributeNotExists n) m = (m n = None)"
| "holds (AttrEq n v) m = (m n = Some v)"
| "holds (And c d) m = (holds c m \<and> holds d m)"

section \<open>Errors, status codes and the logger\<close>

text \<open>
  An error of the store client carries a \<open>name\<close> and a \<open>message\<close>. A \<open>catch\<close> of the
  source can receive such an error, an object \<open>{status, data}\<close> thrown by the module, or
  \<open>new Error(message)\<close>.
\<close>

datatype aws_error = AwsError (err_name: string) (err_message: string)

datatype exn = HttpError nat string | Aws aws_error | JsError string

text \<open>The text \<open>${e}\<close> of a template string.\<close>

fun aws_to_string :: "aws_error \<Rightarrow> string" where
  "aws_to_string (AwsError n m) = n @ '': '' @ m"

fun exn_to_string :: "exn \<Rightarrow> string" where
  "exn_to_string (HttpError s d) = ''[object Object]''"
| "exn_to_string (Aws e) = aws_to_string e"
| "exn_to_string (JsError m) = ''Error: '' @ m"

datatype status_name =
  Success | BadRequest | PaymentRequired | NotFound | Conflict | InternalServerError

text \<open>
  Modelled from the spec: the table \<open>statusCodes\<close> of \<open>./statusCodes\<close>, which is not part
  of the sources at hand. The spec maps validation errors to 400, conflicts to 409, missing
  targets to 404 and internal errors to 500; Success and Payment Required take their HTTP
  numbers 200 and 402.
\<close>

fun statusCodes :: "status_name \<Rightarrow> nat" where
  "statusCodes Success = 200"
| "statusCodes BadRequest = 400"
| "statusCodes PaymentRequired = 402"
| "statusCodes NotFound = 404"
| "statusCodes Conflict = 409"
| "statusCodes InternalServerError = 500"

text \<open>
  Modelled from the spec: the logger of \<open>./logger\<close>, which is not part of the sources at
  hand. The module calls \<open>logger.error\<close> and \<open>logger.fatal\<close>, and the spec names the
  level of \<open>fatal\<close> the highest severity; the levels are listed lowest first.
\<close>

datatype level = Trace | Debug | Info | Warn | Error | Fatal

fun severity :: "level \<Rightarrow> nat" where
  "severity Trace = 10"
| "severity Debug = 20"
| "severity Info = 30"
| "severity Warn = 40"
| "severity Error = 50"
| "severity Fatal = 60"

section \<open>The store\<close>

text \<open>
  Modelled from the spec: the store adapter (section 6 of the spec), reached in the source
  through \<open>connection.ddbClient()\<close>, the DynamoDB document client, which is not part of the
  sources at hand. The spec fixes its contract: conditional put and update that fail with a
  condition-failed error, get, a query that returns items, a count and a continuation
  token, and an all-or-nothing transactional write.

  The state the module acts on: the three tables, each a list of items in the order in
  which the store returns them, the page boundaries of the store, and the lines the logger
  has written. \<open>pageItems st k\<close> is the number of items that fit in one response (1 MB)
  that starts after \<open>k\<close> evaluated items; a response always evaluates one item at least.
\<close>

record state =
  appsTable :: "app list"
  deletedAppsTable :: "deleted_app list"
  usersTable :: "user list"
  pageItems :: "nat \<Rightarrow> nat"
  logged :: "(level \<times> string) list"

definition logger :: "level \<Rightarrow> string \<Rightarrow> state \<Rightarrow> state" where
  "logger l msg st = st\<lparr>logged := logged st @ [(l, msg)]\<rparr>"

definition at_key :: "string \<Rightarrow> string \<Rightarrow> app \<Rightarrow> bool" where
  "at_key adminId appName a = (admin_id a = adminId \<and> app_name a = appName)"

text \<open>
  Modelled from the spec: the item the store holds at a key of the apps table, or nothing.
  It is what \<open>ddbClient.get\<close> returns for a key the store accepts, and what the store
  reads to evaluate the condition of a write. \<open>ddb_get_deleted\<close> is the same for the
  deleted-apps table, whose key is the application id; the module never calls it, the store
  reads the item to evaluate the condition of a write.
\<close>

definition ddb_get :: "state \<Rightarrow> string \<Rightarrow> string \<Rightarrow> app option" where
  "ddb_get st adminId appName = find (at_key adminId appName) (appsTable st)"

definition ddb_get_deleted :: "state \<Rightarrow> string \<Rightarrow> deleted_app option" where
  "ddb_get_deleted st appId = find (\<lambda>t. deleted_app_id t = appId) (deletedAppsTable st)"

definition conditionalCheckFailed :: aws_error where
  "conditionalCheckFailed =
     AwsError ''ConditionalCheckFailedException'' ''The conditional request failed''"

text \<open>
  Modelled from the spec: the store answers a \<open>get\<close> only for a key it accepts. A key
  attribute is a string that is not empty (a missing field is the empty string here) and
  whose UTF-8 encoding has at most 2048 bytes for the partition key \<open>admin-id\<close> and at
  most 1024 bytes for the sort key \<open>app-name\<close>; a code unit below 128 takes one byte and
  one from 128 to 255 takes two. For any other key \<open>ddbClient.get\<close> is rejected with
  \<open>ValidationException\<close>. The refusal is represented for \<open>get\<close>, the call that
  \<open>listAppUsers\<close> makes with no guard on the name before it.
\<close>

definition utf8Size :: "string \<Rightarrow> nat" where
  "utf8Size s = sum_list (map (\<lambda>c. if (of_char c :: nat) < 128 then 1 else 2) s)"

definition validKeyAttribute :: "nat \<Rightarrow> string \<Rightarrow> bool" where
  "validKeyAttribute maxBytes s = (s \<noteq> [] \<and> utf8Size s \<le> maxBytes)"

definition validAppKey :: "string \<Rightarrow> string \<Rightarrow> bool" where
  "validAppKey adminId appName =
     (validKeyAttribute 2048 adminId \<and> validKeyAttribute 1024 appName)"

definition keyRefused :: aws_error where
  "keyRefused = AwsError ''ValidationException'' ''One or more parameter values were invalid''"

text \<open>\<open>ddbClient.get\<close> on the apps table, as the module calls it in \<open>getApp\<close>.\<close>

definition ddbClient_get :: "state \<Rightarrow> string \<Rightarrow> string \<Rightarrow> aws_error + app option" where
  "ddbClient_get st adminId appName =
     (if validAppKey adminId appName then Inr (ddb_get st adminId appName) else Inl keyRefused)"

text \<open>
  Modelled from the spec: \<open>ddbClient.put\<close> on the apps table. The condition is evaluated
  on the item now at the key of the new item; when it holds the new item replaces that one,
  and otherwise the call fails with \<open>ConditionalCheckFailedException\<close> and writes nothing.
\<close>

definition ddb_put :: "state \<Rightarrow> app \<Rightarrow> condition \<Rightarrow> aws_error + state" where
  "ddb_put st item c =
     (if holds c (attrs_of app_attrs (ddb_get st (admin_id item) (app_name item)))
      then Inr (st\<lparr>appsTable :=
             filter (\<lambda>a. \<not> at_key (admin_id item) (app_name item) a) (appsTable st) @ [item]\<rparr>)
      else Inl conditionalCheckFailed)"

text \<open>
  Modelled from the spec: \<open>ddbClient.update\<close> on the apps table with the update expression
  \<open>SET deleted = :deleted\<close>. The store would create an item holding the key and
  \<open>deleted\<close> alone when the condition holds at a key without an item; the one condition the
  module sends requires \<open>attribute_exists(admin-id)\<close>, which is false there, and the model
  leaves the table as it is in that case.
\<close>

definition ddb_update_deleted :: "state \<Rightarrow> string \<Rightarrow> string \<Rightarrow> iso_date \<Rightarrow> condition \<Rightarrow> aws_error + state" where
  "ddb_update_deleted st adminId appName v c =
     (if holds c (attrs_of app_attrs (ddb_get st adminId appName))
      then Inr (st\<lparr>appsTable :=
             map (\<lambda>a. if at_key adminId appName a then a\<lparr>deleted := Some v\<rparr> else a) (appsTable st)\<rparr>)
      else Inl conditionalCheckFailed)"

text \<open>
  Modelled from the spec: the error of a cancelled transaction identifies the conditions
  that failed. Its message, as the DynamoDB client words it, lists in the order of the items
  of the transaction the reason code of each item in square brackets, \<open>None\<close> for an item
  whose condition held. The source looks for \<open>ConditionalCheckFailed]\<close> in this message.
\<close>

definition reason_code :: "bool \<Rightarrow> string" where
  "reason_code ok = (if ok then ''None'' else ''ConditionalCheckFailed'')"

definition cancellation_message :: "bool \<Rightarrow> bool \<Rightarrow> string" where
  "cancellation_message ok1 ok2 =
     ''Transaction cancelled, please refer cancellation reasons for specific reasons [''
       @ reason_code ok1 @ '', '' @ reason_code ok2 @ '']''"

text \<open>
  Modelled from the spec: \<open>ddbClient.transactWrite\<close> with the two items of
  \<open>permanentDeleteApp\<close>, a Delete on
  the apps table and a Put on the deleted-apps table. Both conditions are evaluated on the
  state before the call; both writes happen when both hold, and none otherwise.
\<close>

definition ddb_transactWrite ::
    "state \<Rightarrow> string \<times> string \<times> condition \<Rightarrow> deleted_app \<times> condition \<Rightarrow> aws_error + state" where
  "ddb_transactWrite st del put =
     (case del of (adminId, appName, c1) \<Rightarrow>
      case put of (item, c2) \<Rightarrow>
        let ok1 = holds c1 (attrs_of app_attrs (ddb_get st adminId appName));
            ok2 = holds c2 (attrs_of deleted_app_attrs (ddb_get_deleted st (deleted_app_id item)))
        in if ok1 \<and> ok2
           then Inr (st\<lparr>appsTable := filter (\<lambda>a. \<not> at_key adminId appName a) (appsTable st),
                        deletedAppsTable :=
                          filter (\<lambda>t. deleted_app_id t \<noteq> deleted_app_id item) (deletedAppsTable st)
                            @ [item]\<rparr>)
           else Inl (AwsError ''TransactionCanceledException'' (cancellation_message ok1 ok2)))"

text \<open>
  The response of \<open>ddbClient.query\<close>. \<open>LastEvaluatedKey\<close> stands for the key of the last
  item the store evaluated; the model keeps the number of items of the partition evaluated
  so far, which is what the key tells the store when it comes back as \<open>ExclusiveStartKey\<close>.
\<close>

record 'a query_response =
  Items :: "'a list"
  Count :: nat
  LastEvaluatedKey :: "nat option"

text \<open>
  Modelled from the spec: \<open>ddbClient.query\<close>. The partition is the items that satisfy the
  key condition, in the order of the index. The store evaluates the items after \<open>ExclusiveStartKey\<close>, at most
  \<open>Limit\<close> of them and at most one response full, applies the filter to the evaluated
  items afterwards, and returns \<open>LastEvaluatedKey\<close> when it stopped at one of the two
  bounds. A \<open>Limit\<close> below 1 is refused.
\<close>

definition pageBound :: "(nat \<Rightarrow> nat) \<Rightarrow> nat option \<Rightarrow> nat \<Rightarrow> nat" where
  "pageBound pages limit start =
     (case limit of None \<Rightarrow> max 1 (pages start) | Some l \<Rightarrow> min l (max 1 (pages start)))"

definition ddb_query ::
    "(nat \<Rightarrow> nat) \<Rightarrow> ('a \<Rightarrow> string \<Rightarrow> attr_value option) \<Rightarrow> 'a list \<Rightarrow> condition \<Rightarrow> condition option
       \<Rightarrow> nat option \<Rightarrow> nat option \<Rightarrow> aws_error + 'a query_response" where
  "ddb_query pages attrs table keyCondition filterExpression limit exclusiveStartKey =
     (if limit = Some 0
      then Inl (AwsError ''ValidationException'' ''Limit must be greater than or equal to 1'')
      else
        let partition = filter (\<lambda>x. holds keyCondition (attrs x)) table;
            start = (case exclusiveStartKey of None \<Rightarrow> 0 | Some k \<Rightarrow> k);
            bound = pageBound pages limit start;
            evaluated = take bound (drop start partition);
            matching = (case filterExpression of None \<Rightarrow> evaluated
                        | Some f \<Rightarrow> filter (\<lambda>x. holds f (attrs x)) evaluated)
        in Inr \<lparr>Items = matching, Count = length matching,
                LastEvaluatedKey =
                  (if length evaluated = bound then Some (start + bound) else None)\<rparr>)"

section \<open>JavaScript helpers\<close>

text \<open>
  The white space that \<open>String.prototype.trim\<close> removes, among the code units below 256:
  tab, line feed, vertical tab, form feed, carriage return, space and no-break space.
\<close>

definition isWhiteSpace :: "char \<Rightarrow> bool" where
  "isWhiteSpace c = ((of_char c :: nat) \<in> {9, 10, 11, 12, 13, 32, 160})"

definition trim :: "string \<Rightarrow> string" where
  "trim s = rev (dropWhile isWhiteSpace (rev (dropWhile isWhiteSpace s)))"

fun startsWith :: "string \<Rightarrow> string \<Rightarrow> bool" where
  "startsWith s [] = True"
| "startsWith [] (p # ps) = False"
| "startsWith (c # cs) (p # ps) = (c = p \<and> startsWith cs ps)"

text \<open>\<open>s.includes(sub)\<close>: \<open>sub\<close> occurs in \<open>s\<close> at some position.\<close>

fun includes_str :: "string \<Rightarrow> string \<Rightarrow> bool" where
  "includes_str [] sub = (sub = [])"
| "includes_str (c # cs) sub = (startsWith (c # cs) sub \<or> includes_str cs sub)"

text \<open>
  An element of the array a listing sends: an item, or a whole array of items, which is
  what \<open>array.push(otherArray)\<close> appends.
\<close>

datatype 'a elem = Item 'a | Page "'a list"

datatype 'a body = Text string | Json 'a | NoBody

text \<open>What a handler leaves in \<open>res\<close>: the status (200 unless set) and what was sent.\<close>

record 'a response =
  status :: nat
  body :: "'a body"

text \<open>The subscription that the payment middleware leaves in \<open>res.locals\<close>, if any.\<close>

record subscription =
  subscription_status :: string
  cancel_at_period_end :: bool

text \<open>
  The negation of the guard
  \<open>!subscription || subscription.cancel_at_period_end || subscription.status !== 'active'\<close>.
\<close>

definition subscriptionPaid :: "subscription option \<Rightarrow> bool" where
  "subscriptionPaid sub =
     (case sub of None \<Rightarrow> False
      | Some s \<Rightarrow> \<not> cancel_at_period_end s \<and> subscription_status s = ''active'')"

section \<open>createApp\<close>

text \<open>The body of the \<open>try\<close> of \<open>createApp\<close> (lines 15 to 39).\<close>

definition createApp_try :: "state \<Rightarrow> string \<Rightarrow> string \<Rightarrow> string \<Rightarrow> iso_date \<Rightarrow> (exn + app) \<times> state" where
  "createApp_try st appName adminId appId now =
     (let trimmedAppName = trim appName in
      if trimmedAppName = []
      then (Inl (HttpError (statusCodes BadRequest) ''App name cannot be blank''), st)
      else
        let app = \<lparr>admin_id = adminId, app_name = trimmedAppName, app_id = appId,
                   creation_date = now, deleted = None\<rparr>
        in case ddb_put st app (AttributeNotExists ''admin-id'') of
             Inl e \<Rightarrow> (Inl (Aws e), st)
           | Inr st' \<Rightarrow> (Inr app, st'))"

definition createApp_failed :: "exn \<Rightarrow> state \<Rightarrow> string \<Rightarrow> string \<Rightarrow> (nat \<times> string + app) \<times> state" where
  "createApp_failed e st appName adminId =
     (Inl (statusCodes InternalServerError, ''Failed to create app''),
      logger Error (''Failed to create app '' @ appName @ '' for admin '' @ adminId
                      @ '' with '' @ exn_to_string e) st)"

text \<open>
  The \<open>catch\<close> of \<open>createApp\<close> (lines 40 to 54). Only an object thrown by the module has
  a \<open>data\<close> field, and only an error of the store has the name the second test asks for.
  What is thrown is the pair \<open>{status, data}\<close>.
\<close>

fun createApp_catch :: "exn \<Rightarrow> state \<Rightarrow> string \<Rightarrow> string \<Rightarrow> (nat \<times> string + app) \<times> state" where
  "createApp_catch (HttpError s d) st appName adminId =
     (if d = ''App name cannot be blank'' then (Inl (s, d), st)
      else createApp_failed (HttpError s d) st appName adminId)"
| "createApp_catch (Aws e) st appName adminId =
     (if err_name e = ''ConditionalCheckFailedException''
      then (Inl (statusCodes Conflict, ''App already exists''), st)
      else createApp_failed (Aws e) st appName adminId)"
| "createApp_catch (JsError m) st appName adminId = createApp_failed (JsError m) st appName adminId"

text \<open>
  \<open>createApp(appName, adminId, appId)\<close>; \<open>appId\<close> defaults to a fresh \<open>uuidv4()\<close> and
  \<open>now\<close> is the clock read by \<open>new Date()\<close>. The result is what the promise resolves to
  (\<open>Inr\<close>) or the object it is rejected with (\<open>Inl\<close>), and the state afterwards.
\<close>

definition createApp :: "state \<Rightarrow> string \<Rightarrow> string \<Rightarrow> string \<Rightarrow> iso_date \<Rightarrow> (nat \<times> string + app) \<times> state" where
  "createApp st appName adminId appId now =
     (if appName = [] \<or> adminId = []
      then (Inl (statusCodes BadRequest, ''Missing required items''), st)
      else case createApp_try st appName adminId appId now of
             (Inr app, st') \<Rightarrow> (Inr app, st')
           | (Inl e, st') \<Rightarrow> createApp_catch e st' appName adminId)"

definition createAppController ::
    "state \<Rightarrow> subscription option \<Rightarrow> string \<Rightarrow> string \<Rightarrow> string \<Rightarrow> iso_date \<Rightarrow> app response \<times> state" where
  "createAppController st sub appName adminId appId now =
     (if \<not> subscriptionPaid sub
      then (\<lparr>status = statusCodes PaymentRequired,
             body = Text ''Pay subscription fee to create an app.''\<rparr>, st)
      else case createApp st appName adminId appId now of
             (Inr app, st') \<Rightarrow> (\<lparr>status = 200, body = Json app\<rparr>, st')
           | (Inl (s, d), st') \<Rightarrow> (\<lparr>status = s, body = Text d\<rparr>, st'))"

section \<open>Listing the applications of an administrator\<close>

text \<open>
  The loop of \<open>listApps\<close> and of \<open>listAppUsers\<close> (lines 101 to 105 and 302 to 306):
  while the last response has a \<open>LastEvaluatedKey\<close>, query again from that key and
  \<open>push\<close> the \<open>Items\<close> array of the response onto the array collected so far.
\<close>

function pushPages ::
    "(nat \<Rightarrow> nat) \<Rightarrow> ('a \<Rightarrow> string \<Rightarrow> attr_value option) \<Rightarrow> 'a list \<Rightarrow> condition
       \<Rightarrow> 'a elem list \<Rightarrow> nat option \<Rightarrow> aws_error + 'a elem list" where
  "pushPages pages attrs table keyCondition collected lastEvaluatedKey =
     (case lastEvaluatedKey of
        None \<Rightarrow> Inr collected
      | Some k \<Rightarrow>
          (case ddb_query pages attrs table keyCondition None None (Some k) of
             Inl e \<Rightarrow> Inl e
           | Inr response \<Rightarrow>
               pushPages pages attrs table keyCondition
                 (collected @ [Page (Items response)]) (LastEvaluatedKey response)))"
  by pat_completeness auto
termination
  by (relation "measure (\<lambda>(pages, attrs, table, keyCondition, collected, lastEvaluatedKey).
        case lastEvaluatedKey of None \<Rightarrow> 0
        | Some k \<Rightarrow> Suc (Suc (length (filter (\<lambda>x. holds keyCondition (attrs x)) table)) - k))")
     (auto simp: ddb_query_def pageBound_def Let_def split: if_splits option.splits)

text \<open>The first query and the loop: \<open>let apps = appsResponse.Items\<close>, then the pushes.\<close>

definition queryAll ::
    "(nat \<Rightarrow> nat) \<Rightarrow> ('a \<Rightarrow> string \<Rightarrow> attr_value option) \<Rightarrow> 'a list \<Rightarrow> condition
       \<Rightarrow> aws_error + 'a elem list" where
  "queryAll pages attrs table keyCondition =
     (case ddb_query pages attrs table keyCondition None None None of
        Inl e \<Rightarrow> Inl e
      | Inr response \<Rightarrow>
          pushPages pages attrs table keyCondition (map Item (Items response))
            (LastEvaluatedKey response))"

definition listApps :: "state \<Rightarrow> string \<Rightarrow> app elem list response \<times> state" where
  "listApps st adminId =
     (case queryAll (pageItems st) app_attrs (appsTable st) (AttrEq ''admin-id'' (S adminId)) of
        Inr apps \<Rightarrow> (\<lparr>status = statusCodes Success, body = Json apps\<rparr>, st)
      | Inl e \<Rightarrow>
          (\<lparr>status = statusCodes InternalServerError, body = Text ''Failed to list apps''\<rparr>,
           logger Error (''Failed to list apps with '' @ aws_to_string e) st))"

section \<open>Looking an application up\<close>

text \<open>
  \<open>getApp\<close> (lines 116 to 128): the promise resolves to the item of the response
  (\<open>Inr\<close>, \<open>None\<close> when the response has no item) or is rejected with the error of the
  store (\<open>Inl\<close>).
\<close>

definition getApp :: "state \<Rightarrow> string \<Rightarrow> string \<Rightarrow> aws_error + app option" where
  "getApp st adminId appName = ddbClient_get st adminId appName"

text \<open>
  The one query of \<open>getAppByAppId\<close>, on the \<open>app-id\<close> index of the apps table. It has
  no \<open>Limit\<close>, no filter and no start key, and the function reads this response alone.
\<close>

definition appIdQuery :: "state \<Rightarrow> string \<Rightarrow> aws_error + app query_response" where
  "appIdQuery st appId =
     ddb_query (pageItems st) app_attrs (appsTable st) (AttrEq ''app-id'' (S appId)) None None None"

text \<open>
  \<open>getAppByAppId\<close>: \<open>Inr None\<close> is \<open>null\<close>, \<open>Inl\<close> is what the promise is rejected
  with. The state changes by the line of the logger only.
\<close>

definition getAppByAppId :: "state \<Rightarrow> string \<Rightarrow> (exn + app option) \<times> state" where
  "getAppByAppId st appId =
     (case appIdQuery st appId of
        Inl e \<Rightarrow> (Inl (Aws e), st)
      | Inr appResponse \<Rightarrow>
          (case Items appResponse of
             [] \<Rightarrow> (Inr None, st)
           | [a] \<Rightarrow> (Inr (Some a), st)
           | a # b # others \<Rightarrow>
               let errorMsg = ''Too many apps found with app id '' @ appId
               in (Inl (JsError errorMsg), logger Fatal errorMsg st)))"

section \<open>Deleting an application\<close>

definition deleteApp ::
    "state \<Rightarrow> subscription option \<Rightarrow> string \<Rightarrow> string \<Rightarrow> iso_date \<Rightarrow> unit response \<times> state" where
  "deleteApp st sub appName adminId now =
     (if \<not> subscriptionPaid sub
      then (\<lparr>status = statusCodes PaymentRequired,
             body = Text ''Pay subscription fee to delete an app.''\<rparr>, st)
      else if appName = [] \<or> adminId = []
      then (\<lparr>status = statusCodes BadRequest, body = Text ''Missing required items''\<rparr>, st)
      else
        case ddb_update_deleted st adminId appName now
               (And (AttributeExists ''admin-id'') (AttributeNotExists ''deleted'')) of
          Inr st' \<Rightarrow> (\<lparr>status = 200, body = NoBody\<rparr>, st')
        | Inl e \<Rightarrow>
            if err_name e = ''ConditionalCheckFailedException''
            then (\<lparr>status = statusCodes NotFound, body = Text ''App not found''\<rparr>, st)
            else (\<lparr>status = statusCodes InternalServerError, body = Text ''Failed to delete app''\<rparr>,
                  logger Error (''Failed to delete app '' @ appName @ '' for admin '' @ adminId
                                  @ '' with '' @ aws_to_string e) st))"

definition permanentDeleteApp ::
    "state \<Rightarrow> subscription option \<Rightarrow> string \<Rightarrow> string \<Rightarrow> string \<Rightarrow> unit response \<times> state" where
  "permanentDeleteApp st sub appName appId adminId =
     (if \<not> subscriptionPaid sub
      then (\<lparr>status = statusCodes PaymentRequired,
             body = Text ''Pay subscription fee to permanently delete an app.''\<rparr>, st)
      else if appName = [] \<or> appId = [] \<or> adminId = []
      then (\<lparr>status = statusCodes BadRequest, body = Text ''Missing required items''\<rparr>, st)
      else
        let existingAppParams =
              (adminId, appName, And (AttributeExists ''deleted'') (AttrEq ''app-id'' (S appId)));
            permanentDeletedAppParams =
              (\<lparr>deleted_app_id = appId, deleted_admin_id = adminId, deleted_app_name = appName\<rparr>,
               AttributeNotExists ''app-id'')
        in case ddb_transactWrite st existingAppParams permanentDeletedAppParams of
             Inr st' \<Rightarrow> (\<lparr>status = 200, body = NoBody\<rparr>, st')
           | Inl e \<Rightarrow>
               if includes_str (err_message e) ''ConditionalCheckFailed]''
               then (\<lparr>status = statusCodes Conflict,
                      body = Text ''App already permanently deleted''\<rparr>, st)
               else (\<lparr>status = statusCodes InternalServerError,
                      body = Text ''Failed to permanently delete app''\<rparr>,
                     logger Error (''Failed to permanently delete app '' @ appName @ '' for admin ''
                                     @ adminId @ '' with '' @ aws_to_string e) st))"

section \<open>The users of an application\<close>

text \<open>
  The \<open>catch\<close> of \<open>listAppUsers\<close> (lines 312 to 317). It receives the rejection of
  \<open>getApp\<close> as well as that of a query: both calls stand in the \<open>try\<close>.
\<close>

definition listAppUsers_catch ::
    "aws_error \<Rightarrow> state \<Rightarrow> string \<Rightarrow> string \<Rightarrow> 'b response \<times> state" where
  "listAppUsers_catch e st appName adminId =
     (\<lparr>status = statusCodes InternalServerError, body = Text ''Failed to list app users''\<rparr>,
      logger Error (''Failed to list app users for app '' @ appName @ '' and admin ''
                      @ adminId @ '' with '' @ aws_to_string e) st)"

text \<open>
  \<open>listAppUsers\<close>. The handler has no guard on the name or the owner id: it calls
  \<open>getApp\<close> with whatever the request holds. \<open>buildUserResult\<close> belongs to the user
  module and is a parameter here; the handler applies it to every element of the collected
  array.
\<close>

definition listAppUsers ::
    "(user elem \<Rightarrow> 'r) \<Rightarrow> state \<Rightarrow> string \<Rightarrow> string \<Rightarrow> ('r list \<times> string) response \<times> state" where
  "listAppUsers buildUserResult st appName adminId =
     (case getApp st adminId appName of
        Inl e \<Rightarrow> listAppUsers_catch e st appName adminId
      | Inr None \<Rightarrow> (\<lparr>status = statusCodes NotFound, body = Text ''App not found''\<rparr>, st)
      | Inr (Some app) \<Rightarrow>
          if deleted app \<noteq> None
          then (\<lparr>status = statusCodes NotFound, body = Text ''App not found''\<rparr>, st)
          else
            (case queryAll (pageItems st) user_attrs (usersTable st)
                    (AttrEq ''app-id'' (S (app_id app))) of
               Inr users \<Rightarrow>
                 (\<lparr>status = statusCodes Success,
                   body = Json (map buildUserResult users, app_id app)\<rparr>, st)
             | Inl e \<Rightarrow> listAppUsers_catch e st appName adminId))"

text \<open>
  The \<open>limit\<close> argument of \<open>countNonDeletedAppUsers\<close> is a number or is left out
  (\<open>None\<close>). As a condition it is true when it is there and is not 0.
\<close>

definition truthy :: "nat option \<Rightarrow> bool" where
  "truthy limit = (case limit of None \<Rightarrow> False | Some l \<Rightarrow> l \<noteq> 0)"

text \<open>\<open>if (limit) params.Limit = limit\<close>.\<close>

definition paramsLimit :: "nat option \<Rightarrow> nat option" where
  "paramsLimit limit = (if truthy limit then limit else None)"

text \<open>\<open>!limit || count < limit\<close>.\<close>

definition belowLimit :: "nat option \<Rightarrow> nat \<Rightarrow> bool" where
  "belowLimit limit count =
     (\<not> truthy limit \<or> (case limit of None \<Rightarrow> False | Some l \<Rightarrow> count < l))"

text \<open>\<open>limit ? Math.min(limit, n) : n\<close>.\<close>

definition capped :: "nat option \<Rightarrow> nat \<Rightarrow> nat" where
  "capped limit n = (if truthy limit then (case limit of None \<Rightarrow> n | Some l \<Rightarrow> min l n) else n)"

definition activeUserFilter :: condition where
  "activeUserFilter = And (AttributeNotExists ''deleted'') (AttributeNotExists ''seed-not-saved-yet'')"

definition countQuery :: "state \<Rightarrow> string \<Rightarrow> nat option \<Rightarrow> nat option \<Rightarrow> aws_error + user query_response" where
  "countQuery st appId limit exclusiveStartKey =
     ddb_query (pageItems st) user_attrs (usersTable st) (AttrEq ''app-id'' (S appId))
       (Some activeUserFilter) (paramsLimit limit) exclusiveStartKey"

text \<open>The loop of \<open>countNonDeletedAppUsers\<close> (lines 345 to 351).\<close>

function countLoop :: "state \<Rightarrow> string \<Rightarrow> nat option \<Rightarrow> nat \<Rightarrow> nat option \<Rightarrow> aws_error + nat" where
  "countLoop st appId limit count lastEvaluatedKey =
     (case lastEvaluatedKey of
        None \<Rightarrow> Inr count
      | Some k \<Rightarrow>
          if belowLimit limit count
          then (case countQuery st appId limit (Some k) of
                  Inl e \<Rightarrow> Inl e
                | Inr usersResponse \<Rightarrow>
                    countLoop st appId limit (capped limit (count + Count usersResponse))
                      (LastEvaluatedKey usersResponse))
          else Inr count)"
  by pat_completeness auto
termination
proof (relation "measure (\<lambda>(st, appId, limit, count, lastEvaluatedKey).
        case lastEvaluatedKey of None \<Rightarrow> 0
        | Some k \<Rightarrow> Suc (Suc (length (filter (\<lambda>u. holds (AttrEq ''app-id'' (S appId)) (user_attrs u))
                                        (usersTable st))) - k))", goal_cases)
  case 1
  show ?case by simp
next
  case (2 st appId limit count lastEvaluatedKey k usersResponse)
  let ?partition = "filter (\<lambda>u. holds (AttrEq ''app-id'' (S appId)) (user_attrs u)) (usersTable st)"
  let ?b = "pageBound (pageItems st) (paramsLimit limit) k"
  have nonzero: "paramsLimit limit \<noteq> Some 0"
    by (auto simp: paramsLimit_def truthy_def split: option.splits)
  then have positive: "0 < ?b"
    by (auto simp: pageBound_def split: option.splits)
  from 2(3) nonzero
  have key: "LastEvaluatedKey usersResponse
               = (if length (take ?b (drop k ?partition)) = ?b then Some (k + ?b) else None)"
    by (auto simp: countQuery_def ddb_query_def Let_def simp del: length_take holds.simps)
  show ?case
  proof (cases "length (take ?b (drop k ?partition)) = ?b")
    case True
    then have "k + ?b \<le> length ?partition"
      using positive by (simp add: min_def split: if_splits)
    with positive True key 2(1) show ?thesis
      by (simp del: length_take holds.simps)
  next
    case False
    with key 2(1) show ?thesis
      by (simp del: length_take holds.simps)
  qed
qed

definition countNonDeletedAppUsers :: "state \<Rightarrow> string \<Rightarrow> nat option \<Rightarrow> aws_error + nat" where
  "countNonDeletedAppUsers st appId limit =
     (case countQuery st appId limit None of
        Inl e \<Rightarrow> Inl e
      | Inr usersResponse \<Rightarrow>
          countLoop st appId limit (Count usersResponse) (LastEvaluatedKey usersResponse))"

section \<open>Notions of the specification\<close>

text \<open>
  The dependent records that reference an application id, in the order of the index, and
  those of them that count as active: not marked deleted and provisioned (no
  \<open>seed-not-saved-yet\<close> marker).
\<close>

definition appUsers :: "state \<Rightarrow> string \<Rightarrow> user list" where
  "appUsers st appId = filter (\<lambda>u. user_app_id u = appId) (usersTable st)"

definition isActive :: "user \<Rightarrow> bool" where
  "isActive u = (user_deleted u = None \<and> seed_not_saved_yet u = None)"

definition activeDependents :: "state \<Rightarrow> string \<Rightarrow> user list" where
  "activeDependents st appId = filter isActive (appUsers st appId)"

text \<open>The items of a collected array, with the arrays inside it spliced in.\<close>

fun elemItems :: "'a elem \<Rightarrow> 'a list" where
  "elemItems (Item x) = [x]"
| "elemItems (Page xs) = xs"

definition flatten :: "'a elem list \<Rightarrow> 'a list" where
  "flatten els = concat (map elemItems els)"

text \<open>The number of items one query of \<open>countNonDeletedAppUsers\<close> evaluates from position \<open>k\<close>.\<close>

definition userBound :: "state \<Rightarrow> nat option \<Rightarrow> nat \<Rightarrow> nat" where
  "userBound st limit k = pageBound (pageItems st) (paramsLimit limit) k"

text \<open>The three tables of a state: what a request can change in the store.\<close>

definition tables :: "state \<Rightarrow> app list \<times> deleted_app list \<times> user list" where
  "tables st = (appsTable st, deletedAppsTable st, usersTable st)"

text \<open>
  The precondition of a permanent deletion: the record at the key is soft-deleted and
  carries the application id of the request.
\<close>

definition softDeletedWithId :: "state \<Rightarrow> string \<Rightarrow> string \<Rightarrow> string \<Rightarrow> bool" where
  "softDeletedWithId st adminId appName appId =
     (case ddb_get st adminId appName of None \<Rightarrow> False
      | Some a \<Rightarrow> deleted a \<noteq> None \<and> app_id a = appId)"

text \<open>
  What the one query of \<open>getAppByAppId\<close> yields: the records of the apps table with the
  application id, as far as they fit in the first response.
\<close>

definition foundApps :: "state \<Rightarrow> string \<Rightarrow> app list" where
  "foundApps st appId = take (max 1 (pageItems st 0)) (filter (\<lambda>a. app_id a = appId) (appsTable st))"

section \<open>Example states\<close>

definition paid :: "subscription option" where
  "paid = Some \<lparr>subscription_status = ''active'', cancel_at_period_end = False\<rparr>"

definition aUser :: "string \<Rightarrow> string \<Rightarrow> iso_date option \<Rightarrow> bool option \<Rightarrow> user" where
  "aUser n appId d s = \<lparr>username = n, user_app_id = appId, user_deleted = d, seed_not_saved_yet = s\<rparr>"

text \<open>
  Twelve users of the application \<open>app1\<close>, every second one deleted or not yet provisioned,
  and one user of another application; the store answers with three items a page.
\<close>

definition usersState :: state where
  "usersState =
     \<lparr>appsTable = [], deletedAppsTable = [],
      usersTable =
        [aUser ''u01'' ''app1'' None None, aUser ''u02'' ''app1'' (Some (ISODate 7)) None,
         aUser ''u03'' ''app1'' None None, aUser ''u04'' ''app1'' None (Some True),
         aUser ''v01'' ''app2'' None None,
         aUser ''u05'' ''app1'' None None, aUser ''u06'' ''app1'' (Some (ISODate 8)) None,
         aUser ''u07'' ''app1'' None None, aUser ''u08'' ''app1'' None (Some True),
         aUser ''u09'' ''app1'' None None, aUser ''u10'' ''app1'' (Some (ISODate 9)) None,
         aUser ''u11'' ''app1'' None None, aUser ''u12'' ''app1'' None (Some True)],
      pageItems = (\<lambda>k. 3), logged = []\<rparr>"

definition anApp :: "string \<Rightarrow> string \<Rightarrow> string \<Rightarrow> iso_date option \<Rightarrow> app" where
  "anApp adminId n i d =
     \<lparr>admin_id = adminId, app_name = n, app_id = i, creation_date = ISODate 1, deleted = d\<rparr>"

text \<open>
  Three applications of \<open>admin1\<close>, one of them soft-deleted, and one of \<open>admin2\<close>; one
  tombstone; the store answers with two items a page.
\<close>

definition appsState :: state where
  "appsState =
     \<lparr>appsTable = [anApp ''admin1'' ''todo'' ''id1'' None,
                   anApp ''admin2'' ''shop'' ''id2'' None,
                   anApp ''admin1'' ''notes'' ''id3'' (Some (ISODate 5)),
                   anApp ''admin1'' ''chat'' ''id4'' None],
      deletedAppsTable =
        [\<lparr>deleted_app_id = ''id9'', deleted_admin_id = ''admin1'', deleted_app_name = ''old''\<rparr>],
      usersTable = [aUser ''u01'' ''id1'' None None, aUser ''u02'' ''id2'' None None,
                    aUser ''u03'' ''id1'' None None, aUser ''u04'' ''id1'' None None],
      pageItems = (\<lambda>k. 2), logged = []\<rparr>"

definition unpaid :: "subscription option" where
  "unpaid = Some \<lparr>subscription_status = ''active'', cancel_at_period_end = True\<rparr>"

text \<open>A corrupted store: two records share the application id \<open>id1\<close>.\<close>

definition corruptState :: state where
  "corruptState = appsState\<lparr>appsTable :=
      [anApp ''admin1'' ''todo'' ''id1'' None, anApp ''admin2'' ''shop'' ''id1'' None]\<rparr>"

section \<open>Lemmas on conditions and on the helpers\<close>

declare pushPages.simps [simp del] countLoop.simps [simp del]

lemma holds_not_exists_admin:
  "holds (AttributeNotExists ''admin-id'') (attrs_of app_attrs x) = (x = None)"
  by (cases x) (simp_all add: attrs_of_def app_attrs_def)

lemma holds_active_record:
  "holds (And (AttributeExists ''admin-id'') (AttributeNotExists ''deleted'')) (attrs_of app_attrs x)
     = (\<exists>a. x = Some a \<and> deleted a = None)"
  by (cases x) (simp_all add: attrs_of_def app_attrs_def)

lemma holds_soft_deleted:
  "holds (And (AttributeExists ''deleted'') (AttrEq ''app-id'' (S appId))) (attrs_of app_attrs x)
     = (\<exists>a. x = Some a \<and> deleted a \<noteq> None \<and> app_id a = appId)"
  by (cases x) (auto simp add: attrs_of_def app_attrs_def)

lemma holds_no_tombstone:
  "holds (AttributeNotExists ''app-id'') (attrs_of deleted_app_attrs x) = (x = None)"
  by (cases x) (simp_all add: attrs_of_def deleted_app_attrs_def)

lemmas holds_conditions =
  holds_not_exists_admin holds_active_record holds_soft_deleted holds_no_tombstone

lemma holds_admin_key [simp]:
  "holds (AttrEq ''admin-id'' (S adminId)) (app_attrs a) = (admin_id a = adminId)"
  by (simp add: app_attrs_def)

lemma holds_app_id_key [simp]:
  "holds (AttrEq ''app-id'' (S appId)) (app_attrs a) = (app_id a = appId)"
  by (simp add: app_attrs_def)

lemma holds_user_key [simp]:
  "holds (AttrEq ''app-id'' (S appId)) (user_attrs u) = (user_app_id u = appId)"
  by (simp add: user_attrs_def)

lemma holds_activeUserFilter [simp]:
  "holds activeUserFilter (user_attrs u) = (user_deleted u = None \<and> seed_not_saved_yet u = None)"
  by (simp add: activeUserFilter_def user_attrs_def)

lemma list_all_dropWhile: "list_all P (dropWhile P s) = list_all P s"
  by (induction s) auto

lemma trim_blank_iff: "trim s = [] \<longleftrightarrow> list_all isWhiteSpace s"
proof -
  have "trim s = [] \<longleftrightarrow> list_all isWhiteSpace (dropWhile isWhiteSpace s)"
    by (simp add: trim_def list_all_iff)
  then show ?thesis
    by (simp add: list_all_dropWhile)
qed

lemma find_filter_not: "find P xs = None \<Longrightarrow> filter (\<lambda>x. \<not> P x) xs = xs"
  by (induction xs) (auto split: if_splits)

lemma find_filter_snoc: "find P (filter (\<lambda>x. \<not> P x) xs @ [y]) = (if P y then Some y else None)"
  by (induction xs) auto

lemma find_map_update:
  "(\<And>x. P (f x) = P x) \<Longrightarrow> find P (map (\<lambda>x. if P x then f x else x) xs) = map_option f (find P xs)"
  by (induction xs) auto

lemma trim_Nil: "trim [] = []"
  by (simp add: trim_def)

lemma activeDependents_usersState: "length (activeDependents usersState ''app1'') = 6"
  by (simp add: activeDependents_def appUsers_def isActive_def usersState_def aUser_def)

section \<open>Counting the active users of an application\<close>

lemma isActive_eq: "isActive = (\<lambda>u. user_deleted u = None \<and> seed_not_saved_yet u = None)"
  by (rule ext) (simp add: isActive_def)

lemma paramsLimit_nonzero: "paramsLimit limit \<noteq> Some 0"
  by (auto simp: paramsLimit_def truthy_def split: option.splits)

lemma pageBound_pos: "0 < userBound st limit k"
  by (auto simp: userBound_def pageBound_def paramsLimit_def truthy_def split: option.splits)

lemma pageBound_le: "truthy limit \<Longrightarrow> limit = Some l \<Longrightarrow> userBound st limit k \<le> l"
  by (auto simp: userBound_def pageBound_def paramsLimit_def truthy_def split: option.splits)

lemma countQuery_result0:
  "countQuery st appId limit esk =
     (let k = (case esk of None \<Rightarrow> 0 | Some k \<Rightarrow> k);
          b = pageBound (pageItems st) (paramsLimit limit) k;
          ev = take b (drop k (appUsers st appId))
      in Inr \<lparr>Items = filter isActive ev, Count = length (filter isActive ev),
          LastEvaluatedKey = (if length ev = b then Some (k + b) else None)\<rparr>)"
  unfolding countQuery_def ddb_query_def
  apply (simp only: paramsLimit_nonzero if_False Let_def option.case holds_user_key holds_activeUserFilter)
  apply (simp only: appUsers_def isActive_eq)
  done

lemma countQuery_result:
  "countQuery st appId limit esk =
     Inr \<lparr>Items = filter isActive (take (userBound st limit (case esk of None \<Rightarrow> 0 | Some k \<Rightarrow> k))
                                      (drop (case esk of None \<Rightarrow> 0 | Some k \<Rightarrow> k) (appUsers st appId))),
          Count = length (filter isActive (take (userBound st limit (case esk of None \<Rightarrow> 0 | Some k \<Rightarrow> k))
                                      (drop (case esk of None \<Rightarrow> 0 | Some k \<Rightarrow> k) (appUsers st appId)))),
          LastEvaluatedKey =
            (if length (take (userBound st limit (case esk of None \<Rightarrow> 0 | Some k \<Rightarrow> k))
                          (drop (case esk of None \<Rightarrow> 0 | Some k \<Rightarrow> k) (appUsers st appId)))
                  = userBound st limit (case esk of None \<Rightarrow> 0 | Some k \<Rightarrow> k)
             then Some ((case esk of None \<Rightarrow> 0 | Some k \<Rightarrow> k) + userBound st limit (case esk of None \<Rightarrow> 0 | Some k \<Rightarrow> k))
             else None)\<rparr>"
  unfolding countQuery_result0 userBound_def Let_def ..

lemma capped_capped: "capped limit (capped limit a + c) = capped limit (a + c)"
  by (auto simp: capped_def split: option.splits)

lemma count_take_add:
  "length (filter P (take k xs)) + length (filter P (take b (drop k xs)))
     = length (filter P (take (k + b) xs))"
  by (simp add: take_add)

lemma count_take_rest:
  "length (take b (drop k xs)) \<noteq> b \<Longrightarrow>
   length (filter P (take k xs)) + length (filter P (take b (drop k xs))) = length (filter P xs)"
proof -
  assume "length (take b (drop k xs)) \<noteq> b"
  then have "take b (drop k xs) = drop k xs"
    by (simp add: min_def split: if_splits)
  moreover have "filter P xs = filter P (take k xs) @ filter P (drop k xs)"
    by (metis append_take_drop_id filter_append)
  ultimately show ?thesis by simp
qed

lemma count_take_le: "length (filter P (take k xs)) \<le> length (filter P xs)"
proof -
  have "filter P xs = filter P (take k xs) @ filter P (drop k xs)"
    by (metis append_take_drop_id filter_append)
  then show ?thesis by simp
qed

lemma countLoop_total:
  "(case lek of
      None \<Rightarrow> count = capped limit (length (activeDependents st appId))
    | Some k \<Rightarrow> count = capped limit (length (filter isActive (take k (appUsers st appId)))))
   \<Longrightarrow> countLoop st appId limit count lek = Inr (capped limit (length (activeDependents st appId)))"
proof (induction st appId limit count lek rule: countLoop.induct)
  case (1 st appId limit count lek)
  show ?case
  proof (cases lek)
    case None
    with "1.prems" show ?thesis by (subst countLoop.simps) simp
  next
    case (Some k)
    with "1.prems" have count: "count = capped limit (length (filter isActive (take k (appUsers st appId))))"
      by simp
    show ?thesis
    proof (cases "belowLimit limit count")
      case False
      then obtain l where l: "limit = Some l" "l \<noteq> 0" "l \<le> count"
        by (auto simp: belowLimit_def truthy_def split: option.splits)
      with count have "l \<le> length (filter isActive (take k (appUsers st appId)))" "count = l"
        by (auto simp: capped_def truthy_def)
      moreover have "length (filter isActive (take k (appUsers st appId))) \<le> length (activeDependents st appId)"
        unfolding activeDependents_def by (rule count_take_le)
      ultimately have "count = capped limit (length (activeDependents st appId))"
        using l by (simp add: capped_def truthy_def)
      with Some False show ?thesis by (subst countLoop.simps) simp
    next
      case True
      let ?b = "userBound st limit k"
      let ?ev = "take ?b (drop k (appUsers st appId))"
      let ?r = "\<lparr>Items = filter isActive ?ev, Count = length (filter isActive ?ev),
                 LastEvaluatedKey = (if length ?ev = ?b then Some (k + ?b) else None)\<rparr>"
      have q: "countQuery st appId limit (Some k) = Inr ?r"
        using countQuery_result [of st appId limit "Some k"] by (simp only: option.case)
      have new: "capped limit (count + Count ?r)
                   = capped limit (length (filter isActive (take k (appUsers st appId)))
                                     + length (filter isActive ?ev))"
        by (simp add: count capped_capped)
      have inv: "case LastEvaluatedKey ?r of
                   None \<Rightarrow> capped limit (count + Count ?r) = capped limit (length (activeDependents st appId))
                 | Some k' \<Rightarrow> capped limit (count + Count ?r)
                      = capped limit (length (filter isActive (take k' (appUsers st appId))))"
      proof (cases "length ?ev = ?b")
        case True
        have "capped limit (count + Count ?r)
                = capped limit (length (filter isActive (take (k + ?b) (appUsers st appId))))"
          unfolding new count_take_add ..
        with True show ?thesis
          by (simp del: length_take)
      next
        case False
        have "capped limit (count + Count ?r) = capped limit (length (activeDependents st appId))"
          unfolding new count_take_rest [OF False] activeDependents_def ..
        with False show ?thesis
          by (simp del: length_take)
      qed
      have "countLoop st appId limit (capped limit (count + Count ?r)) (LastEvaluatedKey ?r)
              = Inr (capped limit (length (activeDependents st appId)))"
        using "1.IH" [OF Some True q inv] .
      with Some True q show ?thesis
        by (subst countLoop.simps) (simp del: length_take)
    qed
  qed
qed

lemma countNonDeletedAppUsers_capped:
  "countNonDeletedAppUsers st appId limit = Inr (capped limit (length (activeDependents st appId)))"
proof -
  let ?b = "userBound st limit 0"
  let ?ev = "take ?b (appUsers st appId)"
  let ?r = "\<lparr>Items = filter isActive ?ev, Count = length (filter isActive ?ev),
             LastEvaluatedKey = (if length ?ev = ?b then Some ?b else None)\<rparr>"
  have q: "countQuery st appId limit None = Inr ?r"
    using countQuery_result [of st appId limit None] by (simp only: option.case drop_0 add_0)
  have le: "length (filter isActive ?ev) \<le> ?b"
    by (rule order_trans [OF length_filter_le]) simp
  have first: "Count ?r = capped limit (length (filter isActive ?ev))"
  proof (cases "truthy limit")
    case True
    then obtain l where l: "limit = Some l"
      by (auto simp: truthy_def split: option.splits)
    from le pageBound_le [OF True l] have "length (filter isActive ?ev) \<le> l"
      by (rule order_trans)
    with True l show ?thesis
      by (simp add: capped_def)
  next
    case False
    then show ?thesis
      by (simp add: capped_def)
  qed
  have inv: "case LastEvaluatedKey ?r of
               None \<Rightarrow> Count ?r = capped limit (length (activeDependents st appId))
             | Some k \<Rightarrow> Count ?r = capped limit (length (filter isActive (take k (appUsers st appId))))"
  proof (cases "length ?ev = ?b")
    case True
    with first show ?thesis
      by (simp del: length_take)
  next
    case False
    then have "?ev = appUsers st appId"
      by (simp add: min_def split: if_splits)
    then have "Count ?r = capped limit (length (activeDependents st appId))"
      using first by (simp add: activeDependents_def)
    with False show ?thesis
      by (simp del: length_take)
  qed
  show ?thesis
    unfolding countNonDeletedAppUsers_def q
    using countLoop_total [OF inv] by simp
qed


text \<open>
  C2. With a limit \<open>L > 0\<close>, \<open>countNonDeletedAppUsers\<close> returns the number of active
  dependent records capped at \<open>L\<close>, so exactly \<open>L\<close> whenever at least \<open>L\<close> of them exist
  over all the pages, however few of them each page holds; without a limit it returns the
  number of all active dependent records.
\<close>

theorem countNonDeletedAppUsers_limit:
  "(0 < L \<longrightarrow> countNonDeletedAppUsers st appId (Some L)
                 = Inr (min L (length (activeDependents st appId))))
   \<and> (0 < L \<and> L \<le> length (activeDependents st appId)
        \<longrightarrow> countNonDeletedAppUsers st appId (Some L) = Inr L)
   \<and> countNonDeletedAppUsers st appId None = Inr (length (activeDependents st appId))"
  by (simp add: countNonDeletedAppUsers_capped capped_def truthy_def)

theorem countNonDeletedAppUsers_limit_witness:
  "countNonDeletedAppUsers usersState ''app1'' (Some 5) = Inr 5
   \<and> countNonDeletedAppUsers usersState ''app1'' (Some 9) = Inr 6
   \<and> countNonDeletedAppUsers usersState ''app1'' None = Inr 6"
  using countNonDeletedAppUsers_limit [of 5 usersState "''app1''"]
        countNonDeletedAppUsers_limit [of 9 usersState "''app1''"]
  by (simp add: activeDependents_usersState)

text \<open>
  C10. A limit of 0 is false as a condition, so no \<open>Limit\<close> is sent and the loop runs to
  the end of the partition: the result is the number of all active dependent records, as
  for a call without a limit, and so it is not 0 when there is such a record.
\<close>

theorem countNonDeletedAppUsers_zero_limit:
  "countNonDeletedAppUsers st appId (Some 0) = Inr (length (activeDependents st appId))
   \<and> countNonDeletedAppUsers st appId (Some 0) = countNonDeletedAppUsers st appId None
   \<and> paramsLimit (Some 0) = None
   \<and> (activeDependents st appId \<noteq> [] \<longrightarrow> countNonDeletedAppUsers st appId (Some 0) \<noteq> Inr 0)"
  by (simp add: countNonDeletedAppUsers_capped capped_def truthy_def paramsLimit_def)

theorem countNonDeletedAppUsers_zero_limit_witness:
  "activeDependents usersState ''app1'' \<noteq> []
   \<and> countNonDeletedAppUsers usersState ''app1'' (Some 0) = Inr 6
   \<and> countNonDeletedAppUsers usersState ''app1'' (Some 0) \<noteq> Inr 0"
  using countNonDeletedAppUsers_zero_limit [of usersState "''app1''"]
        activeDependents_usersState
  by auto

section \<open>Creating an application\<close>

lemma createApp_conflict:
  assumes "adminId \<noteq> []" "trim appName \<noteq> []" "ddb_get st adminId (trim appName) \<noteq> None"
  shows "createApp st appName adminId appId now = (Inl (statusCodes Conflict, ''App already exists''), st)"
proof -
  from assms(2) have "appName \<noteq> []" by (auto simp: trim_Nil)
  with assms show ?thesis
    by (simp add: createApp_def createApp_try_def ddb_put_def Let_def conditionalCheckFailed_def
                  holds_conditions del: holds.simps)
qed

lemma createApp_success:
  assumes "createApp st appName adminId appId now = (Inr app, st')"
  shows "adminId \<noteq> [] \<and> trim appName \<noteq> [] \<and> ddb_get st' adminId (trim appName) = Some app"
proof -
  from assms have ne: "appName \<noteq> []" "adminId \<noteq> []"
    by (auto simp: createApp_def split: if_splits)
  have t: "trim appName \<noteq> []"
  proof
    assume "trim appName = []"
    with ne assms show False
      by (simp add: createApp_def createApp_try_def Let_def)
  qed
  from assms ne t
  have app: "app = \<lparr>admin_id = adminId, app_name = trim appName, app_id = appId,
                     creation_date = now, deleted = None\<rparr>"
    and st': "st' = st\<lparr>appsTable :=
                filter (\<lambda>a. \<not> at_key adminId (trim appName) a) (appsTable st) @ [app]\<rparr>"
    by (auto simp: createApp_def createApp_try_def ddb_put_def Let_def conditionalCheckFailed_def
                   createApp_failed_def
             split: if_splits)
  have "at_key adminId (trim appName) app"
    by (simp add: app at_key_def)
  then have "ddb_get st' adminId (trim appName) = Some app"
    by (simp add: st' ddb_get_def find_filter_snoc)
  with ne t show ?thesis by simp
qed

text \<open>
  C4. Where a record exists at the key (owner id, trimmed name), \<open>createApp\<close> fails with
  409 "App already exists" and returns the state as it was; in particular the call that
  follows a successful creation of the same owner and name fails so.
\<close>

theorem createApp_twice:
  "(adminId \<noteq> [] \<and> trim appName \<noteq> [] \<and> ddb_get st adminId (trim appName) \<noteq> None
      \<longrightarrow> createApp st appName adminId appId now
            = (Inl (statusCodes Conflict, ''App already exists''), st))
   \<and> (createApp st appName adminId appId now = (Inr app, st')
      \<longrightarrow> createApp st' appName adminId appId' now'
            = (Inl (statusCodes Conflict, ''App already exists''), st'))"
proof (intro conjI impI)
  assume "adminId \<noteq> [] \<and> trim appName \<noteq> [] \<and> ddb_get st adminId (trim appName) \<noteq> None"
  then show "createApp st appName adminId appId now = (Inl (statusCodes Conflict, ''App already exists''), st)"
    by (simp add: createApp_conflict)
next
  assume "createApp st appName adminId appId now = (Inr app, st')"
  from createApp_success [OF this]
  show "createApp st' appName adminId appId' now' = (Inl (statusCodes Conflict, ''App already exists''), st')"
    by (simp add: createApp_conflict)
qed

lemma trim_todo: "trim '' todo  '' = ''todo''"
  by (simp add: trim_def isWhiteSpace_def)

theorem createApp_twice_witness:
  "ddb_get appsState ''admin1'' (trim '' todo  '') \<noteq> None
   \<and> createApp appsState '' todo  '' ''admin1'' ''id7'' (ISODate 9)
       = (Inl (409, ''App already exists''), appsState)
   \<and> createApp appsState ''fresh'' ''admin1'' ''id7'' (ISODate 9)
       = (Inr (anApp ''admin1'' ''fresh'' ''id7'' None\<lparr>creation_date := ISODate 9\<rparr>),
          appsState\<lparr>appsTable := appsTable appsState
             @ [anApp ''admin1'' ''fresh'' ''id7'' None\<lparr>creation_date := ISODate 9\<rparr>]\<rparr>)
   \<and> createApp (appsState\<lparr>appsTable := appsTable appsState
             @ [anApp ''admin1'' ''fresh'' ''id7'' None\<lparr>creation_date := ISODate 9\<rparr>]\<rparr>)
         ''fresh'' ''admin1'' ''id8'' (ISODate 10)
       = (Inl (409, ''App already exists''),
          appsState\<lparr>appsTable := appsTable appsState
             @ [anApp ''admin1'' ''fresh'' ''id7'' None\<lparr>creation_date := ISODate 9\<rparr>]\<rparr>)"
proof -
  have fresh: "createApp appsState ''fresh'' ''admin1'' ''id7'' (ISODate 9)
       = (Inr (anApp ''admin1'' ''fresh'' ''id7'' None\<lparr>creation_date := ISODate 9\<rparr>),
          appsState\<lparr>appsTable := appsTable appsState
             @ [anApp ''admin1'' ''fresh'' ''id7'' None\<lparr>creation_date := ISODate 9\<rparr>]\<rparr>)"
    by (simp add: createApp_def createApp_try_def ddb_put_def Let_def trim_def isWhiteSpace_def
                  ddb_get_def appsState_def anApp_def at_key_def holds_conditions
             del: holds.simps)
  have existing: "ddb_get appsState ''admin1'' (trim '' todo  '') \<noteq> None"
    by (simp add: trim_todo ddb_get_def appsState_def anApp_def at_key_def)
  show ?thesis
    using createApp_twice [of "''admin1''" "'' todo  ''" appsState "''id7''" "ISODate 9"]
          createApp_twice [THEN conjunct2, THEN mp, OF fresh]
          fresh existing
    by (simp add: trim_todo)
qed

text \<open>
  C5. A name that is not empty and holds white space only makes \<open>createApp\<close> (called with
  an owner id, as the controller does) fail with 400 "App name cannot be blank", which is
  not the "Missing required items" of an empty name, and the state stays as it was.
\<close>

theorem createApp_blank_name:
  assumes "appName \<noteq> []" "adminId \<noteq> []" "list_all isWhiteSpace appName"
  shows "createApp st appName adminId appId now
           = (Inl (statusCodes BadRequest, ''App name cannot be blank''), st)
         \<and> createApp st [] adminId appId now
           = (Inl (statusCodes BadRequest, ''Missing required items''), st)
         \<and> createApp st appName adminId appId now \<noteq> createApp st [] adminId appId now"
  using assms
  by (simp add: createApp_def createApp_try_def Let_def trim_blank_iff)

theorem createApp_blank_name_witness:
  "list_all isWhiteSpace ''   ''
   \<and> createApp appsState ''   '' ''admin1'' ''id7'' (ISODate 9)
       = (Inl (400, ''App name cannot be blank''), appsState)"
  using createApp_blank_name [of "''   ''" "''admin1''" appsState "''id7''" "ISODate 9"]
  by (simp add: isWhiteSpace_def)

section \<open>The subscription guard\<close>

text \<open>
  C9. Each of the three handlers that write answers 402 when the subscription is missing,
  is not active or is cancelled at the end of the period, and returns the state as it was:
  the guard stands before every call of the store.
\<close>

theorem unpaid_subscription_stops_writes:
  assumes "sub = None \<or> (\<exists>s. sub = Some s \<and> (subscription_status s \<noteq> ''active'' \<or> cancel_at_period_end s))"
  shows "createAppController st sub appName adminId appId now
           = (\<lparr>status = 402, body = Text ''Pay subscription fee to create an app.''\<rparr>, st)
         \<and> deleteApp st sub appName adminId now
           = (\<lparr>status = 402, body = Text ''Pay subscription fee to delete an app.''\<rparr>, st)
         \<and> permanentDeleteApp st sub appName appId adminId
           = (\<lparr>status = 402, body = Text ''Pay subscription fee to permanently delete an app.''\<rparr>, st)"
proof -
  from assms have "\<not> subscriptionPaid sub"
    by (auto simp: subscriptionPaid_def)
  then show ?thesis
    by (simp add: createAppController_def deleteApp_def permanentDeleteApp_def)
qed

theorem unpaid_subscription_stops_writes_witness:
  "createAppController appsState unpaid ''fresh'' ''admin1'' ''id7'' (ISODate 9)
     = (\<lparr>status = 402, body = Text ''Pay subscription fee to create an app.''\<rparr>, appsState)
   \<and> deleteApp appsState unpaid ''fresh'' ''admin1'' (ISODate 9)
     = (\<lparr>status = 402, body = Text ''Pay subscription fee to delete an app.''\<rparr>, appsState)
   \<and> permanentDeleteApp appsState None ''fresh'' ''id7'' ''admin1''
     = (\<lparr>status = 402, body = Text ''Pay subscription fee to permanently delete an app.''\<rparr>,
        appsState)"
  using unpaid_subscription_stops_writes
          [of unpaid appsState "''fresh''" "''admin1''" "''id7''" "ISODate 9"]
        unpaid_subscription_stops_writes
          [of None appsState "''fresh''" "''admin1''" "''id7''" "ISODate 9"]
  by (simp add: unpaid_def)

section \<open>Soft deletion\<close>

lemma deleteApp_result:
  assumes "subscriptionPaid sub" "appName \<noteq> []" "adminId \<noteq> []"
  shows "deleteApp st sub appName adminId now =
           (case ddb_get st adminId appName of
              None \<Rightarrow> (\<lparr>status = statusCodes NotFound, body = Text ''App not found''\<rparr>, st)
            | Some a \<Rightarrow>
                if deleted a = None
                then (\<lparr>status = 200, body = NoBody\<rparr>,
                      st\<lparr>appsTable := map (\<lambda>x. if at_key adminId appName x then x\<lparr>deleted := Some now\<rparr> else x)
                                         (appsTable st)\<rparr>)
                else (\<lparr>status = statusCodes NotFound, body = Text ''App not found''\<rparr>, st))"
  using assms
  by (auto simp: deleteApp_def ddb_update_deleted_def conditionalCheckFailed_def holds_conditions
           simp del: holds.simps split: option.splits)

lemma ddb_get_after_update:
  "ddb_get (st\<lparr>appsTable := map (\<lambda>x. if at_key adminId appName x then x\<lparr>deleted := Some now\<rparr> else x)
                                (appsTable st)\<rparr>) adminId appName
     = map_option (\<lambda>a. a\<lparr>deleted := Some now\<rparr>) (ddb_get st adminId appName)"
proof -
  have "\<And>x. at_key adminId appName (x\<lparr>deleted := Some now\<rparr>) = at_key adminId appName x"
    by (simp add: at_key_def)
  then show ?thesis
    unfolding ddb_get_def by (simp add: find_map_update)
qed

text \<open>
  C6. For a request that passes the guards of the handler (paid subscription, name and
  owner id not empty), \<open>deleteApp\<close> succeeds exactly when a record exists at the key and
  has no deletion timestamp, and then that record carries the timestamp \<open>now\<close>; when the
  record is missing or already soft-deleted the answer is 404 "App not found" and the
  state is as it was. A second \<open>deleteApp\<close> on the same key always answers 404.
\<close>

theorem deleteApp_soft_delete:
  assumes "subscriptionPaid sub" "appName \<noteq> []" "adminId \<noteq> []"
  shows "(\<forall>a. ddb_get st adminId appName = Some a \<and> deleted a = None \<longrightarrow>
            fst (deleteApp st sub appName adminId now) = \<lparr>status = 200, body = NoBody\<rparr>
            \<and> ddb_get (snd (deleteApp st sub appName adminId now)) adminId appName
                 = Some (a\<lparr>deleted := Some now\<rparr>))
         \<and> (\<not> (\<exists>a. ddb_get st adminId appName = Some a \<and> deleted a = None) \<longrightarrow>
            deleteApp st sub appName adminId now
              = (\<lparr>status = statusCodes NotFound, body = Text ''App not found''\<rparr>, st))
         \<and> deleteApp (snd (deleteApp st sub appName adminId now)) sub appName adminId now'
              = (\<lparr>status = statusCodes NotFound, body = Text ''App not found''\<rparr>,
                 snd (deleteApp st sub appName adminId now))"
proof (intro conjI allI impI)
  fix a
  assume a: "ddb_get st adminId appName = Some a \<and> deleted a = None"
  with assms show "fst (deleteApp st sub appName adminId now) = \<lparr>status = 200, body = NoBody\<rparr>"
    by (simp add: deleteApp_result)
  from a assms show "ddb_get (snd (deleteApp st sub appName adminId now)) adminId appName
                       = Some (a\<lparr>deleted := Some now\<rparr>)"
    by (simp add: deleteApp_result ddb_get_after_update)
next
  assume "\<not> (\<exists>a. ddb_get st adminId appName = Some a \<and> deleted a = None)"
  with assms show "deleteApp st sub appName adminId now
              = (\<lparr>status = statusCodes NotFound, body = Text ''App not found''\<rparr>, st)"
    by (auto simp: deleteApp_result split: option.splits)
next
  let ?st' = "snd (deleteApp st sub appName adminId now)"
  have "\<not> (\<exists>a. ddb_get ?st' adminId appName = Some a \<and> deleted a = None)"
    using assms
    by (auto simp: deleteApp_result ddb_get_after_update split: option.splits if_splits)
  with assms show "deleteApp ?st' sub appName adminId now'
              = (\<lparr>status = statusCodes NotFound, body = Text ''App not found''\<rparr>, ?st')"
    by (auto simp: deleteApp_result [of sub appName adminId ?st'] split: option.splits)
qed

theorem deleteApp_soft_delete_witness:
  "fst (deleteApp appsState paid ''todo'' ''admin1'' (ISODate 9)) = \<lparr>status = 200, body = NoBody\<rparr>
   \<and> ddb_get (snd (deleteApp appsState paid ''todo'' ''admin1'' (ISODate 9))) ''admin1'' ''todo''
       = Some (anApp ''admin1'' ''todo'' ''id1'' (Some (ISODate 9)))
   \<and> deleteApp appsState paid ''notes'' ''admin1'' (ISODate 9)
       = (\<lparr>status = 404, body = Text ''App not found''\<rparr>, appsState)
   \<and> deleteApp appsState paid ''gone'' ''admin1'' (ISODate 9)
       = (\<lparr>status = 404, body = Text ''App not found''\<rparr>, appsState)
   \<and> fst (deleteApp (snd (deleteApp appsState paid ''todo'' ''admin1'' (ISODate 9)))
             paid ''todo'' ''admin1'' (ISODate 10))
       = \<lparr>status = 404, body = Text ''App not found''\<rparr>"
proof -
  have p: "subscriptionPaid paid"
    by (simp add: subscriptionPaid_def paid_def)
  have todo: "ddb_get appsState ''admin1'' ''todo'' = Some (anApp ''admin1'' ''todo'' ''id1'' None)"
    and deleted_rec: "ddb_get appsState ''admin1'' ''notes'' = Some (anApp ''admin1'' ''notes'' ''id3'' (Some (ISODate 5)))"
    and gone: "ddb_get appsState ''admin1'' ''gone'' = None"
    by (simp_all add: ddb_get_def appsState_def anApp_def at_key_def)
  show ?thesis
    using deleteApp_soft_delete [OF p, of "''todo''" "''admin1''" appsState "ISODate 9" "ISODate 10"]
          deleteApp_soft_delete [OF p, of "''notes''" "''admin1''" appsState "ISODate 9" "ISODate 10"]
          deleteApp_soft_delete [OF p, of "''gone''" "''admin1''" appsState "ISODate 9" "ISODate 10"]
          todo deleted_rec gone
    by (simp add: anApp_def)
qed

section \<open>Permanent deletion\<close>

lemma includes_cancellation:
  "\<not> (ok1 \<and> ok2) \<Longrightarrow>
   includes_str (cancellation_message ok1 ok2) ''ConditionalCheckFailed]'' = (\<not> ok2)"
  by (cases ok1; cases ok2) (simp_all add: cancellation_message_def reason_code_def)

lemma ddb_transactWrite_result:
  "ddb_transactWrite st
      (adminId, appName, And (AttributeExists ''deleted'') (AttrEq ''app-id'' (S appId)))
      (\<lparr>deleted_app_id = appId, deleted_admin_id = adminId, deleted_app_name = appName\<rparr>,
       AttributeNotExists ''app-id'')
   = (if softDeletedWithId st adminId appName appId \<and> ddb_get_deleted st appId = None
      then Inr (st\<lparr>appsTable := filter (\<lambda>a. \<not> at_key adminId appName a) (appsTable st),
                   deletedAppsTable := deletedAppsTable st
                     @ [\<lparr>deleted_app_id = appId, deleted_admin_id = adminId, deleted_app_name = appName\<rparr>]\<rparr>)
      else Inl (AwsError ''TransactionCanceledException''
                  (cancellation_message (softDeletedWithId st adminId appName appId)
                     (ddb_get_deleted st appId = None))))"
proof -
  have c1: "holds (And (AttributeExists ''deleted'') (AttrEq ''app-id'' (S appId)))
              (attrs_of app_attrs (ddb_get st adminId appName))
            = softDeletedWithId st adminId appName appId"
    by (auto simp: holds_conditions softDeletedWithId_def simp del: holds.simps split: option.splits)
  have keep: "ddb_get_deleted st appId = None \<Longrightarrow>
              filter (\<lambda>t. deleted_app_id t \<noteq> appId) (deletedAppsTable st) = deletedAppsTable st"
    unfolding ddb_get_deleted_def by (rule find_filter_not)
  show ?thesis
    unfolding ddb_transactWrite_def
    by (simp add: c1 holds_no_tombstone keep Let_def del: holds.simps)
qed

lemma tables_logger: "tables (logger l msg st) = tables st"
  by (simp add: tables_def logger_def)

text \<open>
  C1, as amended. For a request with a paid subscription and non-empty owner id, name and
  application id, \<open>permanentDeleteApp\<close> sends one transaction of two items. When the
  record at the key is soft-deleted with the given application id and no tombstone has that
  id, the record is removed and the tombstone is added, both at once. Otherwise the
  transaction is cancelled and the three tables stay as they were; the answer is then 409
  "App already permanently deleted" when a tombstone with the id exists (the condition of the
  last item failed), and 500 "Failed to permanently delete app", with a line of the logger,
  when only the condition on the record failed.
\<close>

theorem permanentDeleteApp_outcomes:
  assumes "subscriptionPaid sub" "appName \<noteq> []" "appId \<noteq> []" "adminId \<noteq> []"
  shows "permanentDeleteApp st sub appName appId adminId =
           (if softDeletedWithId st adminId appName appId \<and> ddb_get_deleted st appId = None
            then (\<lparr>status = 200, body = NoBody\<rparr>,
                  st\<lparr>appsTable := filter (\<lambda>a. \<not> at_key adminId appName a) (appsTable st),
                     deletedAppsTable := deletedAppsTable st
                       @ [\<lparr>deleted_app_id = appId, deleted_admin_id = adminId,
                           deleted_app_name = appName\<rparr>]\<rparr>)
            else if ddb_get_deleted st appId \<noteq> None
            then (\<lparr>status = statusCodes Conflict, body = Text ''App already permanently deleted''\<rparr>, st)
            else (\<lparr>status = statusCodes InternalServerError,
                   body = Text ''Failed to permanently delete app''\<rparr>,
                  logger Error (''Failed to permanently delete app '' @ appName @ '' for admin ''
                      @ adminId @ '' with TransactionCanceledException: ''
                      @ cancellation_message False True) st))
         \<and> (\<not> (softDeletedWithId st adminId appName appId \<and> ddb_get_deleted st appId = None)
              \<longrightarrow> tables (snd (permanentDeleteApp st sub appName appId adminId)) = tables st)"
  using assms
  by (auto simp: permanentDeleteApp_def ddb_transactWrite_result includes_cancellation
                 tables_def logger_def
           simp del: holds.simps)

theorem permanentDeleteApp_outcomes_witness:
  "permanentDeleteApp appsState paid ''notes'' ''id3'' ''admin1''
     = (\<lparr>status = 200, body = NoBody\<rparr>,
        appsState\<lparr>appsTable := [anApp ''admin1'' ''todo'' ''id1'' None,
                                anApp ''admin2'' ''shop'' ''id2'' None,
                                anApp ''admin1'' ''chat'' ''id4'' None],
                  deletedAppsTable :=
                    [\<lparr>deleted_app_id = ''id9'', deleted_admin_id = ''admin1'', deleted_app_name = ''old''\<rparr>,
                     \<lparr>deleted_app_id = ''id3'', deleted_admin_id = ''admin1'', deleted_app_name = ''notes''\<rparr>]\<rparr>)
   \<and> permanentDeleteApp appsState paid ''old'' ''id9'' ''admin1''
     = (\<lparr>status = 409, body = Text ''App already permanently deleted''\<rparr>, appsState)
   \<and> status (fst (permanentDeleteApp appsState paid ''notes'' ''id5'' ''admin1'')) = 500
   \<and> tables (snd (permanentDeleteApp appsState paid ''notes'' ''id5'' ''admin1'')) = tables appsState"
proof -
  have p: "subscriptionPaid paid"
    by (simp add: subscriptionPaid_def paid_def)
  have soft3: "softDeletedWithId appsState ''admin1'' ''notes'' ''id3''"
    and soft5: "\<not> softDeletedWithId appsState ''admin1'' ''notes'' ''id5''"
    and old: "\<not> softDeletedWithId appsState ''admin1'' ''old'' ''id9''"
    by (simp_all add: softDeletedWithId_def ddb_get_def appsState_def anApp_def at_key_def)
  have tomb: "ddb_get_deleted appsState ''id3'' = None" "ddb_get_deleted appsState ''id5'' = None"
    "ddb_get_deleted appsState ''id9'' \<noteq> None"
    by (simp_all add: ddb_get_deleted_def appsState_def)
  have rest: "filter (\<lambda>a. \<not> at_key ''admin1'' ''notes'' a) (appsTable appsState)
                = [anApp ''admin1'' ''todo'' ''id1'' None, anApp ''admin2'' ''shop'' ''id2'' None,
                   anApp ''admin1'' ''chat'' ''id4'' None]"
    by (simp add: appsState_def anApp_def at_key_def)
  have stones: "deletedAppsTable appsState
                  @ [\<lparr>deleted_app_id = ''id3'', deleted_admin_id = ''admin1'', deleted_app_name = ''notes''\<rparr>]
                = [\<lparr>deleted_app_id = ''id9'', deleted_admin_id = ''admin1'', deleted_app_name = ''old''\<rparr>,
                   \<lparr>deleted_app_id = ''id3'', deleted_admin_id = ''admin1'', deleted_app_name = ''notes''\<rparr>]"
    by (simp add: appsState_def)
  have first: "permanentDeleteApp appsState paid ''notes'' ''id3'' ''admin1''
     = (\<lparr>status = 200, body = NoBody\<rparr>,
        appsState\<lparr>appsTable := [anApp ''admin1'' ''todo'' ''id1'' None,
                                anApp ''admin2'' ''shop'' ''id2'' None,
                                anApp ''admin1'' ''chat'' ''id4'' None],
                  deletedAppsTable :=
                    [\<lparr>deleted_app_id = ''id9'', deleted_admin_id = ''admin1'', deleted_app_name = ''old''\<rparr>,
                     \<lparr>deleted_app_id = ''id3'', deleted_admin_id = ''admin1'', deleted_app_name = ''notes''\<rparr>]\<rparr>)"
    using permanentDeleteApp_outcomes [OF p, of "''notes''" "''id3''" "''admin1''" appsState]
          soft3 tomb(1)
    by (simp add: rest stones)
  have second: "permanentDeleteApp appsState paid ''old'' ''id9'' ''admin1''
     = (\<lparr>status = 409, body = Text ''App already permanently deleted''\<rparr>, appsState)"
    using permanentDeleteApp_outcomes [OF p, of "''old''" "''id9''" "''admin1''" appsState]
          old tomb(3)
    by simp
  have third: "status (fst (permanentDeleteApp appsState paid ''notes'' ''id5'' ''admin1'')) = 500
     \<and> tables (snd (permanentDeleteApp appsState paid ''notes'' ''id5'' ''admin1'')) = tables appsState"
    using permanentDeleteApp_outcomes [OF p, of "''notes''" "''id5''" "''admin1''" appsState]
          soft5 tomb(2)
    by (simp add: tables_logger)
  from first second third show ?thesis
    by (simp only: simp_thms)
qed

text \<open>
  C1 as stated fails: the application \<open>todo\<close> of \<open>admin1\<close> was never soft-deleted, so the
  transaction is cancelled with the reasons \<open>[ConditionalCheckFailed, None]\<close>. That message
  does not contain \<open>ConditionalCheckFailed]\<close>, and the handler answers 500, not 409; the
  tables are unchanged.
\<close>

theorem permanentDeleteApp_abort_not_conflict:
  "ddb_transactWrite appsState
      (''admin1'', ''todo'', And (AttributeExists ''deleted'') (AttrEq ''app-id'' (S ''id1'')))
      (\<lparr>deleted_app_id = ''id1'', deleted_admin_id = ''admin1'', deleted_app_name = ''todo''\<rparr>,
       AttributeNotExists ''app-id'')
     = Inl (AwsError ''TransactionCanceledException''
         ''Transaction cancelled, please refer cancellation reasons for specific reasons [ConditionalCheckFailed, None]'')
   \<and> permanentDeleteApp appsState paid ''todo'' ''id1'' ''admin1''
     \<noteq> (\<lparr>status = statusCodes Conflict, body = Text ''App already permanently deleted''\<rparr>, appsState)
   \<and> fst (permanentDeleteApp appsState paid ''todo'' ''id1'' ''admin1'')
     = \<lparr>status = 500, body = Text ''Failed to permanently delete app''\<rparr>
   \<and> tables (snd (permanentDeleteApp appsState paid ''todo'' ''id1'' ''admin1'')) = tables appsState"
  by (simp add: permanentDeleteApp_def ddb_transactWrite_def ddb_get_def ddb_get_deleted_def
                appsState_def anApp_def at_key_def paid_def subscriptionPaid_def
                attrs_of_def app_attrs_def deleted_app_attrs_def cancellation_message_def
                reason_code_def tables_def logger_def Let_def)

section \<open>Looking an application up by its id\<close>

lemma ddb_query_plain:
  "ddb_query pages attrs table kc None None esk =
     (let k = (case esk of None \<Rightarrow> 0 | Some k \<Rightarrow> k);
          b = max 1 (pages k);
          ev = take b (drop k (filter (\<lambda>x. holds kc (attrs x)) table))
      in Inr \<lparr>Items = ev, Count = length ev,
              LastEvaluatedKey = (if length ev = b then Some (k + b) else None)\<rparr>)"
  unfolding ddb_query_def pageBound_def
  by (simp only: Let_def option.case option.distinct if_False)

lemma appIdQuery_Items:
  "\<exists>r. appIdQuery st appId = Inr r \<and> Items r = foundApps st appId"
  unfolding appIdQuery_def ddb_query_plain foundApps_def
  by (simp add: Let_def del: holds.simps)

text \<open>
  C7. \<open>getAppByAppId\<close> returns \<open>null\<close> when the query on the \<open>app-id\<close> index yields no
  record and the record when it yields one. When it yields more than one, the function
  writes a line at the level \<open>fatal\<close>, the top level of the logger, and throws: it never
  returns one of the records.
\<close>

theorem getAppByAppId_zero_one_many:
  "(case appIdQuery st appId of Inl e \<Rightarrow> False | Inr r \<Rightarrow> Items r = foundApps st appId)
   \<and> (foundApps st appId = [] \<longrightarrow> getAppByAppId st appId = (Inr None, st))
   \<and> (\<forall>a. foundApps st appId = [a] \<longrightarrow> getAppByAppId st appId = (Inr (Some a), st))
   \<and> (1 < length (foundApps st appId) \<longrightarrow>
        getAppByAppId st appId
          = (Inl (JsError (''Too many apps found with app id '' @ appId)),
             logger Fatal (''Too many apps found with app id '' @ appId) st))
   \<and> (\<forall>l. severity l \<le> severity Fatal)"
proof -
  obtain r where r: "appIdQuery st appId = Inr r" "Items r = foundApps st appId"
    using appIdQuery_Items by blast
  have sev: "\<forall>l. severity l \<le> severity Fatal"
  proof
    fix l show "severity l \<le> severity Fatal" by (cases l) simp_all
  qed
  have many: "1 < length (foundApps st appId) \<longrightarrow>
        getAppByAppId st appId
          = (Inl (JsError (''Too many apps found with app id '' @ appId)),
             logger Fatal (''Too many apps found with app id '' @ appId) st)"
  proof
    assume "1 < length (foundApps st appId)"
    then obtain a b others where "foundApps st appId = a # b # others"
      by (cases "foundApps st appId"; cases "tl (foundApps st appId)") auto
    with r show "getAppByAppId st appId
          = (Inl (JsError (''Too many apps found with app id '' @ appId)),
             logger Fatal (''Too many apps found with app id '' @ appId) st)"
      by (simp add: getAppByAppId_def Let_def)
  qed
  from r sev many show ?thesis
    by (simp add: getAppByAppId_def)
qed

theorem getAppByAppId_zero_one_many_witness:
  "getAppByAppId corruptState ''id1''
     = (Inl (JsError ''Too many apps found with app id id1''),
        corruptState\<lparr>logged := [(Fatal, ''Too many apps found with app id id1'')]\<rparr>)
   \<and> getAppByAppId appsState ''id2'' = (Inr (Some (anApp ''admin2'' ''shop'' ''id2'' None)), appsState)
   \<and> getAppByAppId appsState ''id5'' = (Inr None, appsState)"
proof -
  have "foundApps corruptState ''id1''
          = [anApp ''admin1'' ''todo'' ''id1'' None, anApp ''admin2'' ''shop'' ''id1'' None]"
    by (simp add: foundApps_def corruptState_def appsState_def anApp_def)
  moreover have "foundApps appsState ''id2'' = [anApp ''admin2'' ''shop'' ''id2'' None]"
    by (simp add: foundApps_def appsState_def anApp_def)
  moreover have "foundApps appsState ''id5'' = []"
    by (simp add: foundApps_def appsState_def anApp_def)
  ultimately show ?thesis
    using getAppByAppId_zero_one_many [of corruptState "''id1''"]
          getAppByAppId_zero_one_many [of appsState "''id2''"]
          getAppByAppId_zero_one_many [of appsState "''id5''"]
    by (simp add: logger_def corruptState_def appsState_def)
qed

section \<open>Listings\<close>

lemma flatten_append [simp]: "flatten (xs @ ys) = flatten xs @ flatten ys"
  by (simp add: flatten_def)

lemma flatten_map_Item [simp]: "flatten (map Item xs) = xs"
  by (induction xs) (simp_all add: flatten_def)

lemma flatten_Page [simp]: "flatten [Page xs] = xs"
  by (simp add: flatten_def)

lemma take_page_rest:
  "length (take b (drop k xs)) \<noteq> b \<Longrightarrow> take b (drop k xs) = drop k xs"
  by (simp add: min_def split: if_splits)

lemma take_page_more: "take b (drop k xs) @ drop (k + b) xs = drop k xs"
  by (metis add.commute append_take_drop_id drop_drop)

lemma pushPages_flatten:
  "\<exists>els. pushPages pages attrs table kc collected lek = Inr els
       \<and> flatten els = flatten collected
           @ (case lek of None \<Rightarrow> [] | Some k \<Rightarrow> drop k (filter (\<lambda>x. holds kc (attrs x)) table))"
proof (induction pages attrs table kc collected lek rule: pushPages.induct)
  case (1 pages attrs table kc collected lek)
  let ?part = "filter (\<lambda>x. holds kc (attrs x)) table"
  show ?case
  proof (cases lek)
    case None
    then show ?thesis by (subst pushPages.simps) simp
  next
    case (Some k)
    let ?b = "max 1 (pages k)"
    let ?ev = "take ?b (drop k ?part)"
    let ?r = "\<lparr>Items = ?ev, Count = length ?ev,
               LastEvaluatedKey = (if length ?ev = ?b then Some (k + ?b) else None)\<rparr>"
    have q: "ddb_query pages attrs table kc None None (Some k) = Inr ?r"
      unfolding ddb_query_plain by (simp only: Let_def option.case)
    obtain els where els:
      "pushPages pages attrs table kc (collected @ [Page (Items ?r)]) (LastEvaluatedKey ?r) = Inr els"
      "flatten els = flatten (collected @ [Page (Items ?r)])
           @ (case LastEvaluatedKey ?r of None \<Rightarrow> [] | Some k' \<Rightarrow> drop k' ?part)"
      using "1.IH" [OF Some q] by blast
    have "flatten els = flatten collected @ drop k ?part"
    proof (cases "length ?ev = ?b")
      case True
      with els(2) show ?thesis
        by (simp add: take_page_more del: length_take holds.simps)
    next
      case False
      with els(2) take_page_rest [OF False] show ?thesis
        by (simp del: length_take holds.simps)
    qed
    with els(1) Some q show ?thesis
      by (subst pushPages.simps) (simp del: length_take holds.simps)
  qed
qed

lemma queryAll_flatten:
  "\<exists>els. queryAll pages attrs table kc = Inr els
       \<and> flatten els = filter (\<lambda>x. holds kc (attrs x)) table"
proof -
  let ?part = "filter (\<lambda>x. holds kc (attrs x)) table"
  let ?b = "max 1 (pages 0)"
  let ?ev = "take ?b ?part"
  let ?r = "\<lparr>Items = ?ev, Count = length ?ev,
             LastEvaluatedKey = (if length ?ev = ?b then Some ?b else None)\<rparr>"
  have q: "ddb_query pages attrs table kc None None None = Inr ?r"
    unfolding ddb_query_plain by (simp only: Let_def option.case drop_0 add_0)
  obtain els where els:
    "pushPages pages attrs table kc (map Item (Items ?r)) (LastEvaluatedKey ?r) = Inr els"
    "flatten els = flatten (map Item (Items ?r))
         @ (case LastEvaluatedKey ?r of None \<Rightarrow> [] | Some k \<Rightarrow> drop k ?part)"
    using pushPages_flatten by blast
  have "flatten els = ?part"
  proof (cases "length ?ev = ?b")
    case True
    with els(2) show ?thesis
      by (simp del: length_take holds.simps)
  next
    case False
    then have "?ev = ?part"
      by (simp add: min_def split: if_splits)
    with els(2) False show ?thesis
      by (simp del: length_take holds.simps)
  qed
  with els(1) q show ?thesis
    by (simp add: queryAll_def del: holds.simps)
qed

lemma queryAll_one_page:
  assumes "length (filter (\<lambda>x. holds kc (attrs x)) table) < max 1 (pages 0)"
  shows "queryAll pages attrs table kc = Inr (map Item (filter (\<lambda>x. holds kc (attrs x)) table))"
  using assms unfolding queryAll_def ddb_query_plain
  by (subst pushPages.simps) (simp add: Let_def del: holds.simps)

lemma pushPages_None: "pushPages pages attrs table kc collected None = Inr collected"
  by (subst pushPages.simps) simp

lemma pushPages_Some:
  "pushPages pages attrs table kc collected (Some k) =
     (let b = max 1 (pages k);
          ev = take b (drop k (filter (\<lambda>x. holds kc (attrs x)) table))
      in pushPages pages attrs table kc (collected @ [Page ev])
           (if length ev = b then Some (k + b) else None))"
  by (subst pushPages.simps) (simp add: ddb_query_plain Let_def del: holds.simps length_take)

lemma queryAll_eq:
  "queryAll pages attrs table kc =
     (let b = max 1 (pages 0);
          ev = take b (filter (\<lambda>x. holds kc (attrs x)) table)
      in pushPages pages attrs table kc (map Item ev) (if length ev = b then Some b else None))"
  by (simp add: queryAll_def ddb_query_plain Let_def del: holds.simps length_take)

lemma listApps_items:
  "\<exists>apps. listApps st adminId = (\<lparr>status = statusCodes Success, body = Json apps\<rparr>, st)
        \<and> flatten apps = filter (\<lambda>a. admin_id a = adminId) (appsTable st)"
proof -
  obtain els where
    "queryAll (pageItems st) app_attrs (appsTable st) (AttrEq ''admin-id'' (S adminId)) = Inr els"
    "flatten els = filter (\<lambda>x. holds (AttrEq ''admin-id'' (S adminId)) (app_attrs x)) (appsTable st)"
    using queryAll_flatten by blast
  then show ?thesis
    by (auto simp: listApps_def simp del: holds.simps)
qed

lemma listApps_one_page:
  assumes "length (filter (\<lambda>a. admin_id a = adminId) (appsTable st)) < max 1 (pageItems st 0)"
  shows "listApps st adminId
           = (\<lparr>status = statusCodes Success,
               body = Json (map Item (filter (\<lambda>a. admin_id a = adminId) (appsTable st)))\<rparr>, st)"
proof -
  from assms
  have "length (filter (\<lambda>x. holds (AttrEq ''admin-id'' (S adminId)) (app_attrs x)) (appsTable st))
          < max 1 (pageItems st 0)"
    by (simp del: holds.simps)
  then have "queryAll (pageItems st) app_attrs (appsTable st) (AttrEq ''admin-id'' (S adminId))
          = Inr (map Item (filter (\<lambda>x. holds (AttrEq ''admin-id'' (S adminId)) (app_attrs x))
                            (appsTable st)))"
    by (rule queryAll_one_page)
  then show ?thesis
    by (simp add: listApps_def del: holds.simps)
qed

lemma listApps_no_records:
  assumes "filter (\<lambda>a. admin_id a = adminId) (appsTable st) = []"
  shows "listApps st adminId = (\<lparr>status = statusCodes Success, body = Json []\<rparr>, st)"
  using listApps_one_page [of adminId st] assms by simp

text \<open>
  C3 does not hold of the code. \<open>admin1\<close> owns three applications and the store answers
  with two items a page: \<open>listApps\<close> sends the two items of the first page followed by
  the array of the second page as one element, \<open>[todo, notes, [chat]]\<close>, and not the flat
  sequence \<open>[todo, notes, chat]\<close>. (Every item is in the array sent, in page order, once the
  nested arrays are spliced in; a listing of one page is flat, and a listing of no record
  is the empty array with status 200.)
\<close>

theorem listApps_second_page_nested:
  "listApps appsState ''admin1''
     = (\<lparr>status = 200,
         body = Json [Item (anApp ''admin1'' ''todo'' ''id1'' None),
                      Item (anApp ''admin1'' ''notes'' ''id3'' (Some (ISODate 5))),
                      Page [anApp ''admin1'' ''chat'' ''id4'' None]]\<rparr>, appsState)
   \<and> [Item (anApp ''admin1'' ''todo'' ''id1'' None),
      Item (anApp ''admin1'' ''notes'' ''id3'' (Some (ISODate 5))),
      Page [anApp ''admin1'' ''chat'' ''id4'' None]]
     \<noteq> map Item [anApp ''admin1'' ''todo'' ''id1'' None,
                  anApp ''admin1'' ''notes'' ''id3'' (Some (ISODate 5)),
                  anApp ''admin1'' ''chat'' ''id4'' None]"
proof -
  have part: "filter (\<lambda>x. holds (AttrEq ''admin-id'' (S ''admin1'')) (app_attrs x)) (appsTable appsState)
          = [anApp ''admin1'' ''todo'' ''id1'' None,
             anApp ''admin1'' ''notes'' ''id3'' (Some (ISODate 5)),
             anApp ''admin1'' ''chat'' ''id4'' None]"
    by (simp add: appsState_def anApp_def app_attrs_def)
  have pages: "pageItems appsState = (\<lambda>k. 2)"
    by (simp add: appsState_def)
  have "queryAll (pageItems appsState) app_attrs (appsTable appsState) (AttrEq ''admin-id'' (S ''admin1''))
          = Inr [Item (anApp ''admin1'' ''todo'' ''id1'' None),
                 Item (anApp ''admin1'' ''notes'' ''id3'' (Some (ISODate 5))),
                 Page [anApp ''admin1'' ''chat'' ''id4'' None]]"
    by (simp add: queryAll_eq pushPages_Some pushPages_None part pages Let_def
             del: holds.simps holds_admin_key)
  then show ?thesis
    by (simp add: listApps_def)
qed


lemma getApp_refused:
  "\<not> validAppKey adminId appName \<Longrightarrow> getApp st adminId appName = Inl keyRefused"
  by (simp add: getApp_def ddbClient_get_def)


text \<open>
  A key the store refuses (an empty or missing name or owner id, or one beyond the size of
  a key attribute) makes \<open>getApp\<close> fail, and the \<open>catch\<close> of the handler answers 500
  "Failed to list app users" with a line of the logger; the tables stay as they were.
\<close>

lemma listAppUsers_refused_key:
  assumes "\<not> validAppKey adminId appName"
  shows "fst (listAppUsers f st appName adminId)
           = \<lparr>status = statusCodes InternalServerError, body = Text ''Failed to list app users''\<rparr>
         \<and> tables (snd (listAppUsers f st appName adminId)) = tables st
         \<and> map fst (logged (snd (listAppUsers f st appName adminId))) = map fst (logged st) @ [Error]"
  using assms
  by (simp add: listAppUsers_def getApp_refused listAppUsers_catch_def tables_def logger_def)




end
